theory Spec2Isabelle
  imports Complex_Main
begin

section \<open>JavaScript numbers\<close>

text \<open>
  A JavaScript number is modelled as an exact real, or one of the three special values
  \<open>NaN\<close>, \<open>+Infinity\<close> and \<open>-Infinity\<close> that \<open>parseFloat\<close> and the arithmetic
  operators can produce. Finite values are exact: binary rounding, overflow of a finite
  result and the sign of zero are not modelled by the operators of this section. The
  range of binary64 is added, for the one product that decides a branch, with the income
  resolver.
\<close>

datatype jsnum = NaN | PInf | NInf | Fin real

fun is_zero :: "jsnum \<Rightarrow> bool" where
  "is_zero (Fin x) = (x = 0)"
| "is_zero _ = False"

fun is_neg :: "jsnum \<Rightarrow> bool" where
  "is_neg (Fin x) = (x < 0)"
| "is_neg NInf = True"
| "is_neg _ = False"

text \<open>Unary minus.\<close>

fun jneg :: "jsnum \<Rightarrow> jsnum" where
  "jneg NaN = NaN"
| "jneg PInf = NInf"
| "jneg NInf = PInf"
| "jneg (Fin x) = Fin (- x)"

text \<open>The operator \<open>+\<close> on numbers.\<close>

fun jadd :: "jsnum \<Rightarrow> jsnum \<Rightarrow> jsnum" where
  "jadd (Fin x) (Fin y) = Fin (x + y)"
| "jadd NaN _ = NaN"
| "jadd _ NaN = NaN"
| "jadd PInf NInf = NaN"
| "jadd NInf PInf = NaN"
| "jadd PInf _ = PInf"
| "jadd _ PInf = PInf"
| "jadd NInf _ = NInf"
| "jadd _ NInf = NInf"

text \<open>The operator \<open>-\<close>.\<close>

definition jsub :: "jsnum \<Rightarrow> jsnum \<Rightarrow> jsnum" where
  "jsub a b = jadd a (jneg b)"

text \<open>The operator \<open>*\<close>: an infinity times zero is \<open>NaN\<close>.\<close>

fun jmul :: "jsnum \<Rightarrow> jsnum \<Rightarrow> jsnum" where
  "jmul (Fin x) (Fin y) = Fin (x * y)"
| "jmul NaN _ = NaN"
| "jmul _ NaN = NaN"
| "jmul a b =
     (if is_zero a \<or> is_zero b then NaN
      else if is_neg a = is_neg b then PInf else NInf)"

text \<open>The operator \<open>/\<close>; a zero divisor is taken as \<open>+0\<close>.\<close>

fun jdiv :: "jsnum \<Rightarrow> jsnum \<Rightarrow> jsnum" where
  "jdiv (Fin x) (Fin y) =
     (if y \<noteq> 0 then Fin (x / y)
      else if x = 0 then NaN else if 0 < x then PInf else NInf)"
| "jdiv NaN _ = NaN"
| "jdiv _ NaN = NaN"
| "jdiv (Fin x) _ = Fin 0"
| "jdiv a (Fin y) = (if is_neg a = (y < 0) then PInf else NInf)"
| "jdiv _ _ = NaN"

text \<open>The comparison \<open>a < b\<close>: false as soon as one side is \<open>NaN\<close>.\<close>

fun jlt :: "jsnum \<Rightarrow> jsnum \<Rightarrow> bool" where
  "jlt NaN _ = False"
| "jlt _ NaN = False"
| "jlt (Fin x) (Fin y) = (x < y)"
| "jlt _ NInf = False"
| "jlt NInf _ = True"
| "jlt PInf _ = False"
| "jlt _ PInf = True"

text \<open>The comparisons \<open>a > b\<close> and \<open>a <= b\<close>.\<close>

definition jgt :: "jsnum \<Rightarrow> jsnum \<Rightarrow> bool" where
  "jgt a b = jlt b a"

definition jle :: "jsnum \<Rightarrow> jsnum \<Rightarrow> bool" where
  "jle a b = (a \<noteq> NaN \<and> b \<noteq> NaN \<and> \<not> jlt b a)"

text \<open>\<open>Math.max\<close> and \<open>Math.min\<close> of two arguments.\<close>

definition Math_max :: "jsnum \<Rightarrow> jsnum \<Rightarrow> jsnum" where
  "Math_max a b = (if a = NaN \<or> b = NaN then NaN else if jlt a b then b else a)"

definition Math_min :: "jsnum \<Rightarrow> jsnum \<Rightarrow> jsnum" where
  "Math_min a b = (if a = NaN \<or> b = NaN then NaN else if jlt b a then b else a)"

text \<open>Truthiness of a number: \<open>!x\<close> holds exactly for \<open>0\<close> and \<open>NaN\<close>.\<close>

definition truthy :: "jsnum \<Rightarrow> bool" where
  "truthy x = (x \<noteq> NaN \<and> \<not> is_zero x)"

section \<open>Tax model\<close>

text \<open>\<open>calculateAnnualTax\<close>: UK income tax and National Insurance, 2025-2026.\<close>

definition calculateAnnualTax :: "jsnum \<Rightarrow> jsnum" where
  "calculateAnnualTax annualIncome =
     (let personalAllowance = Fin 12570;
          allowanceTaperStart = Fin 100000;
          basicRateLimit = Fin 37700;
          higherRateLimit = Fin 125140;
          niPrimaryThreshold = Fin 12570;
          niUpperEarningsLimit = Fin 50270;
          niMainRate = Fin 0.08;
          niUpperRate = Fin 0.02;
          allowanceReduction =
            jdiv (Math_max (Fin 0) (jsub annualIncome allowanceTaperStart)) (Fin 2);
          adjustedAllowance = Math_max (Fin 0) (jsub personalAllowance allowanceReduction);
          taxableIncome = Math_max (Fin 0) (jsub annualIncome adjustedAllowance);
          basicTaxable = Math_min taxableIncome basicRateLimit;
          higherTaxable =
            Math_min (Math_max (jsub taxableIncome basicRateLimit) (Fin 0))
                     (jsub higherRateLimit basicRateLimit);
          additionalTaxable = Math_max (jsub taxableIncome higherRateLimit) (Fin 0);
          incomeTax =
            jadd (jadd (jmul basicTaxable (Fin 0.2)) (jmul higherTaxable (Fin 0.4)))
                 (jmul additionalTaxable (Fin 0.45));
          nationalInsurance =
            (if jgt annualIncome niPrimaryThreshold
             then (let mainBand = jsub (Math_min annualIncome niUpperEarningsLimit) niPrimaryThreshold;
                       upperBand = Math_max (jsub annualIncome niUpperEarningsLimit) (Fin 0)
                   in jadd (jmul mainBand niMainRate) (jmul upperBand niUpperRate))
             else Fin 0)
      in jadd incomeTax nationalInsurance)"

text \<open>
  The reference schedule of the specification (section 4.1), over the reals, written
  from the specification's formulas.
\<close>

definition spec_allowance :: "real \<Rightarrow> real" where
  "spec_allowance income = max 0 (12570 - max 0 (income - 100000) / 2)"

definition spec_taxableIncome :: "real \<Rightarrow> real" where
  "spec_taxableIncome income = max 0 (income - spec_allowance income)"

definition spec_incomeTax :: "real \<Rightarrow> real" where
  "spec_incomeTax taxable =
     min taxable 37700 * 0.2
     + min (max (taxable - 37700) 0) (125140 - 37700) * 0.4
     + max (taxable - 125140) 0 * 0.45"

definition spec_NI :: "real \<Rightarrow> real" where
  "spec_NI income =
     (if income > 12570
      then (min income 50270 - 12570) * 0.08 + max (income - 50270) 0 * 0.02
      else 0)"

definition spec_annualTax :: "real \<Rightarrow> real" where
  "spec_annualTax income = spec_incomeTax (spec_taxableIncome income) + spec_NI income"

section \<open>Page state\<close>

text \<open>
  The script keeps its state in DOM elements and in two arrays. The record below holds
  what the calculation engine reads and writes: the two check boxes, the text of the two
  name fields, and for every numeric field the number that \<open>parseFloat\<close> returns on
  its text (\<open>NaN\<close> for an empty or non-numeric field). Rendering is not modelled.
\<close>

record entry =
  id' :: string
  name :: string
  amount :: jsnum

record state =
  toggle :: bool
  taxToggle :: bool
  hourlyRateInput :: jsnum
  hoursPerWeekInput :: jsnum
  annualSalaryInput :: jsnum
  subNameInput :: string
  subAmountInput :: jsnum
  annualCostNameInput :: string
  annualCostAmountInput :: jsnum
  subscriptions :: "entry list"
  annualCosts :: "entry list"

text \<open>
  The state when the script starts with every field empty and both check boxes off:
  the two arrays are empty, as the script initialises them.
\<close>

definition blank_state :: state where
  "blank_state =
     \<lparr>toggle = False, taxToggle = False,
      hourlyRateInput = NaN, hoursPerWeekInput = NaN, annualSalaryInput = NaN,
      subNameInput = [], subAmountInput = NaN,
      annualCostNameInput = [], annualCostAmountInput = NaN,
      subscriptions = [], annualCosts = []\<rparr>"

section \<open>Income resolver and calculator\<close>

text \<open>\<open>getAnnualIncome\<close>: \<open>None\<close> is the source's \<open>null\<close>.\<close>

definition getAnnualIncome :: "state \<Rightarrow> jsnum option" where
  "getAnnualIncome st =
     (let isAnnual = toggle st in
      if isAnnual then
        (let annual = annualSalaryInput st in
         if jgt annual (Fin 0) then Some annual else None)
      else
        (let rate = hourlyRateInput st; hours = hoursPerWeekInput st in
         if jgt rate (Fin 0) \<and> jgt hours (Fin 0)
         then Some (jmul (jmul rate hours) (Fin 52)) else None))"

record CalculationResult =
  grossAnnual :: jsnum
  grossMonthly :: jsnum
  monthlyTax :: jsnum
  netMonthly :: jsnum
  taxEnabled :: bool

text \<open>\<open>calculateLocally\<close>: \<open>!annualIncome\<close> holds for \<open>null\<close>, \<open>0\<close> and \<open>NaN\<close>.\<close>

definition calculateLocally :: "state \<Rightarrow> CalculationResult option" where
  "calculateLocally st =
     (case getAnnualIncome st of
        None \<Rightarrow> None
      | Some annualIncome \<Rightarrow>
          if \<not> truthy annualIncome then None
          else
            (let grossMonthly = jdiv annualIncome (Fin 12);
                 monthlyTax =
                   (if taxToggle st then jdiv (calculateAnnualTax annualIncome) (Fin 12)
                    else Fin 0)
             in Some \<lparr>grossAnnual = annualIncome,
                      grossMonthly = grossMonthly,
                      monthlyTax = monthlyTax,
                      netMonthly = jsub grossMonthly monthlyTax,
                      taxEnabled = taxToggle st\<rparr>))"

text \<open>
  The range of binary64. The engine's numbers are IEEE doubles: a result of magnitude at
  most \<open>1 / 2 ^ 1075\<close> (half the smallest subnormal) rounds to \<open>0\<close>, and one of
  magnitude at least \<open>2 ^ 1024 - 2 ^ 970\<close> rounds to an infinity. Between the two
  bounds the value is kept exact here: a product of two doubles is zero here exactly
  when the engine's product is.
\<close>

definition binary64_range :: "real \<Rightarrow> jsnum" where
  "binary64_range x =
     (if \<bar>x\<bar> \<le> 1 / 2 ^ 1075 then Fin 0
      else if 2 ^ 1024 - 2 ^ 970 \<le> \<bar>x\<bar> then (if 0 < x then PInf else NInf)
      else Fin x)"

text \<open>The operator \<open>*\<close> with underflow and overflow of a finite product.\<close>

fun jmul_b64 :: "jsnum \<Rightarrow> jsnum \<Rightarrow> jsnum" where
  "jmul_b64 (Fin x) (Fin y) = binary64_range (x * y)"
| "jmul_b64 a b = jmul a b"

text \<open>
  \<open>getAnnualIncome\<close> and \<open>calculateLocally\<close> once more, with the two products of
  \<open>rate * hours * 52\<close> taken in the range of binary64. Whether \<open>calculateLocally\<close>
  returns \<open>null\<close> depends on the arithmetic through this product only: it is the one
  value that the test \<open>!annualIncome\<close> reads.
\<close>

definition getAnnualIncome_b64 :: "state \<Rightarrow> jsnum option" where
  "getAnnualIncome_b64 st =
     (let isAnnual = toggle st in
      if isAnnual then
        (let annual = annualSalaryInput st in
         if jgt annual (Fin 0) then Some annual else None)
      else
        (let rate = hourlyRateInput st; hours = hoursPerWeekInput st in
         if jgt rate (Fin 0) \<and> jgt hours (Fin 0)
         then Some (jmul_b64 (jmul_b64 rate hours) (Fin 52)) else None))"

definition calculateLocally_b64 :: "state \<Rightarrow> CalculationResult option" where
  "calculateLocally_b64 st =
     (case getAnnualIncome_b64 st of
        None \<Rightarrow> None
      | Some annualIncome \<Rightarrow>
          if \<not> truthy annualIncome then None
          else
            (let grossMonthly = jdiv annualIncome (Fin 12);
                 monthlyTax =
                   (if taxToggle st then jdiv (calculateAnnualTax annualIncome) (Fin 12)
                    else Fin 0)
             in Some \<lparr>grossAnnual = annualIncome,
                      grossMonthly = grossMonthly,
                      monthlyTax = monthlyTax,
                      netMonthly = jsub grossMonthly monthlyTax,
                      taxEnabled = taxToggle st\<rparr>))"

section \<open>Expense ledgers\<close>

text \<open>The totals: \<open>reduce\<close> is a left fold from \<open>0\<close>.\<close>

definition getSubscriptionsTotal :: "state \<Rightarrow> jsnum" where
  "getSubscriptionsTotal st = foldl (\<lambda>sum sub. jadd sum (amount sub)) (Fin 0) (subscriptions st)"

definition getAnnualCostsAnnualTotal :: "state \<Rightarrow> jsnum" where
  "getAnnualCostsAnnualTotal st = foldl (\<lambda>sum cost. jadd sum (amount cost)) (Fin 0) (annualCosts st)"

definition getAnnualCostsMonthlyTotal :: "state \<Rightarrow> jsnum" where
  "getAnnualCostsMonthlyTotal st = jdiv (getAnnualCostsAnnualTotal st) (Fin 12)"

text \<open>
  \<open>String.prototype.trim\<close> on strings of 8-bit characters: the white space and line
  terminators of JavaScript below code 256 are tab, line feed, vertical tab, form feed,
  carriage return, space and the no-break space.
\<close>

definition isWhiteSpace :: "char \<Rightarrow> bool" where
  "isWhiteSpace c =
     (c \<in> set [CHR 0x09, CHR 0x0A, CHR 0x0B, CHR 0x0C, CHR 0x0D, CHR 0x20, CHR 0xA0])"

definition trim :: "string \<Rightarrow> string" where
  "trim s = rev (dropWhile isWhiteSpace (rev (dropWhile isWhiteSpace s)))"

text \<open>
  \<open>Date.now().toString()\<close>: the clock is a whole number of milliseconds, printed in
  decimal (it stays far below the magnitude where JavaScript switches to exponents).
\<close>

definition digit_char :: "nat \<Rightarrow> char" where
  "digit_char d = ''0123456789'' ! d"

fun nat_toString :: "nat \<Rightarrow> string" where
  "nat_toString n =
     (if n < 10 then [digit_char n] else nat_toString (n div 10) @ [digit_char (n mod 10)])"

declare nat_toString.simps [simp del]

definition toString :: "int \<Rightarrow> string" where
  "toString i = (if i < 0 then CHR ''-'' # nat_toString (nat (- i)) else nat_toString (nat i))"

text \<open>
  \<open>addSubscription\<close> and \<open>addAnnualCost\<close>. The argument \<open>now\<close> is the value that
  \<open>Date.now()\<close> returns during the call. A string is falsy exactly when it is empty.
  Clearing the two fields leaves the amount field's number at \<open>NaN\<close>.
\<close>

definition addSubscription :: "int \<Rightarrow> state \<Rightarrow> state" where
  "addSubscription now st =
     (let name = trim (subNameInput st);
          amount = subAmountInput st
      in if name = [] \<or> \<not> truthy amount \<or> jle amount (Fin 0) then st
         else st\<lparr>subscriptions :=
                    subscriptions st @ [\<lparr>id' = toString now, name = name, amount = amount\<rparr>],
                  subNameInput := [],
                  subAmountInput := NaN\<rparr>)"

definition addAnnualCost :: "int \<Rightarrow> state \<Rightarrow> state" where
  "addAnnualCost now st =
     (let name = trim (annualCostNameInput st);
          amount = annualCostAmountInput st
      in if name = [] \<or> \<not> truthy amount \<or> jle amount (Fin 0) then st
         else st\<lparr>annualCosts :=
                    annualCosts st @ [\<lparr>id' = toString now, name = name, amount = amount\<rparr>],
                  annualCostNameInput := [],
                  annualCostAmountInput := NaN\<rparr>)"

text \<open>\<open>Array.prototype.findIndex\<close>: the first index whose element satisfies the test, or \<open>-1\<close>.\<close>

fun findIndex_from :: "('a \<Rightarrow> bool) \<Rightarrow> 'a list \<Rightarrow> nat \<Rightarrow> int" where
  "findIndex_from P [] k = - 1"
| "findIndex_from P (x # xs) k = (if P x then int k else findIndex_from P xs (Suc k))"

definition findIndex :: "('a \<Rightarrow> bool) \<Rightarrow> 'a list \<Rightarrow> int" where
  "findIndex P xs = findIndex_from P xs 0"

text \<open>
  \<open>Array.prototype.splice(start, deleteCount)\<close> with no inserted items: a negative
  start counts from the end, and both arguments are clamped to the array.
\<close>

definition splice :: "'a list \<Rightarrow> int \<Rightarrow> int \<Rightarrow> 'a list" where
  "splice xs start deleteCount =
     (let len = int (length xs);
          actualStart = (if start < 0 then max (len + start) 0 else min start len);
          actualDeleteCount = min (max deleteCount 0) (len - actualStart)
      in take (nat actualStart) xs @ drop (nat (actualStart + actualDeleteCount)) xs)"

definition removeSubscription :: "string \<Rightarrow> state \<Rightarrow> state" where
  "removeSubscription i st =
     (let index = findIndex (\<lambda>sub. id' sub = i) (subscriptions st)
      in if index = - 1 then st
         else st\<lparr>subscriptions := splice (subscriptions st) index 1\<rparr>)"

definition removeAnnualCost :: "string \<Rightarrow> state \<Rightarrow> state" where
  "removeAnnualCost i st =
     (let index = findIndex (\<lambda>cost. id' cost = i) (annualCosts st)
      in if index = - 1 then st
         else st\<lparr>annualCosts := splice (annualCosts st) index 1\<rparr>)"

text \<open>\<open>getDisposableMonthly\<close>: a result object is always truthy, \<open>null\<close> is not.\<close>

definition getDisposableMonthly :: "state \<Rightarrow> CalculationResult option \<Rightarrow> jsnum" where
  "getDisposableMonthly st result =
     (case result of
        None \<Rightarrow> Fin 0
      | Some r \<Rightarrow>
          (let subscriptionsCost = getSubscriptionsTotal st;
               annualMonthlyEquivalent = getAnnualCostsMonthlyTotal st
           in jsub (jsub (netMonthly r) subscriptionsCost) annualMonthlyEquivalent))"

section \<open>Projection\<close>

record point =
  month :: int
  balance :: jsnum

text \<open>
  \<open>buildProjectionSeries\<close>: the \<open>for\<close> loop, with the counter \<open>i\<close> and the array
  built so far as arguments. The horizon is a whole number of months.
\<close>

function buildProjectionSeries_loop ::
  "jsnum \<Rightarrow> jsnum \<Rightarrow> int \<Rightarrow> int \<Rightarrow> point list \<Rightarrow> point list" where
  "buildProjectionSeries_loop startBalance monthlyDelta months i series =
     (if i \<le> months
      then buildProjectionSeries_loop startBalance monthlyDelta months (i + 1)
             (series @ [\<lparr>month = i,
                         balance = jadd startBalance (jmul monthlyDelta (Fin (of_int i)))\<rparr>])
      else series)"
  by pat_completeness auto
termination
  by (relation "measure (\<lambda>(startBalance, monthlyDelta, months, i, series). nat (months + 1 - i))")
     auto

declare buildProjectionSeries_loop.simps [simp del]

definition buildProjectionSeries :: "jsnum \<Rightarrow> jsnum \<Rightarrow> int \<Rightarrow> point list" where
  "buildProjectionSeries startBalance monthlyDelta months =
     buildProjectionSeries_loop startBalance monthlyDelta months 0 []"

text \<open>
  The wording of the specification for a rejected amount: "not a positive finite number".
\<close>

fun positive_finite :: "jsnum \<Rightarrow> bool" where
  "positive_finite (Fin x) = (0 < x)"
| "positive_finite _ = False"

section \<open>Arithmetic on finite numbers\<close>

lemma jsub_Fin: "jsub (Fin x) (Fin y) = Fin (x - y)"
  by (simp add: jsub_def)

lemma jdiv_Fin: "y \<noteq> 0 \<Longrightarrow> jdiv (Fin x) (Fin y) = Fin (x / y)"
  by simp

lemma Math_max_Fin: "Math_max (Fin x) (Fin y) = Fin (max x y)"
  by (simp add: Math_max_def max_def)

lemma Math_min_Fin: "Math_min (Fin x) (Fin y) = Fin (min x y)"
  by (simp add: Math_min_def min_def)

lemma jgt_Fin: "jgt (Fin x) (Fin y) = (y < x)"
  by (simp add: jgt_def)

lemma jle_Fin: "jle (Fin x) (Fin y) = (x \<le> y)"
  by (auto simp: jle_def)

lemmas Fin_arith = jsub_Fin jdiv_Fin Math_max_Fin Math_min_Fin jgt_Fin jle_Fin

lemma calculateAnnualTax_Fin:
  "calculateAnnualTax (Fin x) = Fin (spec_incomeTax (spec_taxableIncome x) + spec_NI x)"
  by (simp add: calculateAnnualTax_def Fin_arith spec_incomeTax_def spec_taxableIncome_def
      spec_allowance_def spec_NI_def)

lemma spec_taxableIncome_mono: "a \<le> b \<Longrightarrow> spec_taxableIncome a \<le> spec_taxableIncome b"
  unfolding spec_taxableIncome_def spec_allowance_def
  by (auto simp: max_def field_simps)

lemma spec_taxableIncome_nonneg: "0 \<le> spec_taxableIncome a"
  unfolding spec_taxableIncome_def by simp

lemma spec_incomeTax_mono: "s \<le> t \<Longrightarrow> spec_incomeTax s \<le> spec_incomeTax t"
  unfolding spec_incomeTax_def
  by (auto simp: max_def min_def field_simps)

lemma spec_incomeTax_nonneg: "0 \<le> t \<Longrightarrow> 0 \<le> spec_incomeTax t"
  unfolding spec_incomeTax_def
  by (auto simp: max_def min_def field_simps)

lemma spec_NI_mono: "a \<le> b \<Longrightarrow> spec_NI a \<le> spec_NI b"
  unfolding spec_NI_def
  by (auto simp: max_def min_def field_simps)

lemma spec_NI_nonneg: "0 \<le> spec_NI a"
  unfolding spec_NI_def
  by (auto simp: max_def min_def field_simps)

section \<open>The tax schedule\<close>

text \<open>
  Claim C1. On every finite income \<open>x \<ge> 0\<close>, \<open>calculateAnnualTax\<close> returns the
  reference schedule of the specification, computed in exact arithmetic: income tax on
  the taxable income after the tapered allowance, plus National Insurance. In particular
  the tax on 12570 is 0, on 30000 it is 4880.4 and on 150000 it is 58713.6.
\<close>

theorem calculateAnnualTax_reference_schedule:
  "0 \<le> x \<Longrightarrow>
     calculateAnnualTax (Fin x) = Fin (spec_annualTax x)
     \<and> calculateAnnualTax (Fin 12570) = Fin 0
     \<and> calculateAnnualTax (Fin 30000) = Fin 4880.4
     \<and> calculateAnnualTax (Fin 150000) = Fin 58713.6"
  by (simp add: calculateAnnualTax_Fin spec_annualTax_def spec_incomeTax_def
      spec_taxableIncome_def spec_allowance_def spec_NI_def)

theorem calculateAnnualTax_reference_schedule_witness:
  "(0::real) \<le> 60000 \<and> calculateAnnualTax (Fin 60000) = Fin 14642.6
   \<and> spec_annualTax 60000 = 14642.6"
  using calculateAnnualTax_reference_schedule [of 60000]
  by (simp add: spec_annualTax_def spec_incomeTax_def
      spec_taxableIncome_def spec_allowance_def spec_NI_def)

text \<open>
  Claim C2. For finite incomes \<open>0 < a \<le> b\<close> the tax on \<open>a\<close> is not negative and
  is at most the tax on \<open>b\<close>: the tax never falls as income grows, also across the
  allowance taper and at every threshold.
\<close>

theorem calculateAnnualTax_nonneg_mono:
  assumes "0 < a" and "a \<le> b"
  shows "jle (Fin 0) (calculateAnnualTax (Fin a))
         \<and> jle (calculateAnnualTax (Fin a)) (calculateAnnualTax (Fin b))"
proof -
  have "0 \<le> spec_incomeTax (spec_taxableIncome a) + spec_NI a"
    using spec_incomeTax_nonneg [OF spec_taxableIncome_nonneg] spec_NI_nonneg
    by (simp add: add_nonneg_nonneg)
  moreover have "spec_incomeTax (spec_taxableIncome a) + spec_NI a
      \<le> spec_incomeTax (spec_taxableIncome b) + spec_NI b"
    using spec_incomeTax_mono [OF spec_taxableIncome_mono [OF assms(2)]] spec_NI_mono [OF assms(2)]
    by (rule add_mono)
  ultimately show ?thesis
    by (simp add: calculateAnnualTax_Fin jle_Fin)
qed

theorem calculateAnnualTax_nonneg_mono_witness:
  "(0::real) < 110000 \<and> (110000::real) \<le> 125140
   \<and> jle (Fin 0) (calculateAnnualTax (Fin 110000))
   \<and> jle (calculateAnnualTax (Fin 110000)) (calculateAnnualTax (Fin 125140))"
  using calculateAnnualTax_nonneg_mono [of 110000 125140] by simp

section \<open>The calculator and the income resolver\<close>

text \<open>
  Claim C3. A result that \<open>calculateLocally\<close> returns carries the resolved income as
  \<open>grossAnnual\<close>, a twelfth of it as \<open>grossMonthly\<close>, the monthly tax (a twelfth of
  the annual tax when the tax switch is on, 0 when it is off) and their difference as
  \<open>netMonthly\<close>; the disposable income is the net income minus the subscriptions total
  minus the monthly equivalent of the annual costs, with no clamping, so it can be
  negative.
\<close>

theorem calculateLocally_fields:
  assumes "calculateLocally st = Some r"
  shows "getAnnualIncome st = Some (grossAnnual r)
       \<and> grossMonthly r = jdiv (grossAnnual r) (Fin 12)
       \<and> netMonthly r = jsub (grossMonthly r) (monthlyTax r)
       \<and> taxEnabled r = taxToggle st
       \<and> monthlyTax r =
           (if taxEnabled r then jdiv (calculateAnnualTax (grossAnnual r)) (Fin 12) else Fin 0)
       \<and> getDisposableMonthly st (Some r) =
           jsub (jsub (netMonthly r) (getSubscriptionsTotal st)) (getAnnualCostsMonthlyTotal st)"
  using assms
  by (auto simp: calculateLocally_def getDisposableMonthly_def Let_def
      split: option.splits if_splits)

theorem calculateLocally_fields_witness:
  "calculateLocally
      (blank_state\<lparr>toggle := True, annualSalaryInput := Fin 12000,
         subscriptions := [\<lparr>id' = ''1'', name = ''Rent'', amount = Fin 1500\<rparr>]\<rparr>)
     = Some \<lparr>grossAnnual = Fin 12000, grossMonthly = Fin 1000, monthlyTax = Fin 0,
             netMonthly = Fin 1000, taxEnabled = False\<rparr>
   \<and> getDisposableMonthly
      (blank_state\<lparr>toggle := True, annualSalaryInput := Fin 12000,
         subscriptions := [\<lparr>id' = ''1'', name = ''Rent'', amount = Fin 1500\<rparr>]\<rparr>)
      (Some \<lparr>grossAnnual = Fin 12000, grossMonthly = Fin 1000, monthlyTax = Fin 0,
             netMonthly = Fin 1000, taxEnabled = False\<rparr>) = Fin (- 500)"
  using calculateLocally_fields
    [of "blank_state\<lparr>toggle := True, annualSalaryInput := Fin 12000,
         subscriptions := [\<lparr>id' = ''1'', name = ''Rent'', amount = Fin 1500\<rparr>]\<rparr>"
        "\<lparr>grossAnnual = Fin 12000, grossMonthly = Fin 1000, monthlyTax = Fin 0,
             netMonthly = Fin 1000, taxEnabled = False\<rparr>"]
  by (simp add: blank_state_def calculateLocally_def getAnnualIncome_def jgt_def truthy_def
      jsub_def getSubscriptionsTotal_def getAnnualCostsMonthlyTotal_def
      getAnnualCostsAnnualTotal_def getDisposableMonthly_def Let_def)

lemma binary64_range_not_NaN: "binary64_range x \<noteq> NaN"
  by (simp add: binary64_range_def)

lemma jmul_b64_positive_not_NaN:
  assumes "jgt a (Fin 0)" and "jgt b (Fin 0)"
  shows "jmul_b64 a b \<noteq> NaN"
proof (cases a)
  case (Fin x)
  with assms show ?thesis
    by (cases b) (simp_all add: jgt_def binary64_range_not_NaN)
next
  case PInf
  with assms(2) show ?thesis
    by (cases b) (simp_all add: jgt_def)
next
  case NInf
  with assms(1) show ?thesis by (simp add: jgt_def)
next
  case NaN
  with assms(1) show ?thesis by (simp add: jgt_def)
qed

lemma jmul_b64_52_not_NaN: "v \<noteq> NaN \<Longrightarrow> jmul_b64 v (Fin 52) \<noteq> NaN"
  by (cases v) (simp_all add: binary64_range_not_NaN)

lemma getAnnualIncome_b64_not_NaN: "getAnnualIncome_b64 st \<noteq> Some NaN"
proof (cases "toggle st")
  case True
  then show ?thesis
    by (auto simp: getAnnualIncome_b64_def Let_def jgt_def)
next
  case False
  then show ?thesis
    using jmul_b64_52_not_NaN [OF jmul_b64_positive_not_NaN,
        of "hourlyRateInput st" "hoursPerWeekInput st"]
    by (auto simp: getAnnualIncome_b64_def Let_def)
qed

lemma falsy_cases: "(\<not> truthy v) = (v = NaN \<or> v = Fin 0)"
  by (cases v) (simp_all add: truthy_def)

text \<open>
  Claim C4, as the code has it. \<open>calculateLocally\<close> returns no result exactly when
  \<open>getAnnualIncome\<close> returns none or returns \<open>0\<close>, which it does when the product
  \<open>rate * hours * 52\<close> of two positive numbers underflows. A result it does return
  carries the resolved income, which is not zero. An hourly rate of 0, or any income
  field that is not a positive number, gives no result, whatever the two ledgers hold.
\<close>

theorem calculateLocally_absent_iff:
  "(calculateLocally_b64 st = None \<longleftrightarrow>
      getAnnualIncome_b64 st = None \<or> getAnnualIncome_b64 st = Some (Fin 0))
   \<and> (calculateLocally_b64 st = Some r \<longrightarrow>
        getAnnualIncome_b64 st = Some (grossAnnual r) \<and> grossAnnual r \<noteq> Fin 0)
   \<and> (\<not> toggle st \<and> hourlyRateInput st = Fin 0 \<longrightarrow> calculateLocally_b64 st = None)
   \<and> (\<not> toggle st \<and> (\<not> jgt (hourlyRateInput st) (Fin 0) \<or> \<not> jgt (hoursPerWeekInput st) (Fin 0))
        \<longrightarrow> calculateLocally_b64 st = None)
   \<and> (toggle st \<and> \<not> jgt (annualSalaryInput st) (Fin 0) \<longrightarrow> calculateLocally_b64 st = None)
   \<and> calculateLocally_b64 (st\<lparr>subscriptions := subs, annualCosts := costs\<rparr>)
       = calculateLocally_b64 st"
proof -
  have 1: "calculateLocally_b64 st = None \<longleftrightarrow>
      getAnnualIncome_b64 st = None \<or> getAnnualIncome_b64 st = Some (Fin 0)"
    using getAnnualIncome_b64_not_NaN [of st]
    by (auto simp: calculateLocally_b64_def Let_def falsy_cases split: option.splits)
  have 2: "getAnnualIncome_b64 st = Some (grossAnnual r) \<and> grossAnnual r \<noteq> Fin 0"
    if "calculateLocally_b64 st = Some r"
    using that
    by (auto simp: calculateLocally_b64_def Let_def falsy_cases
        split: option.splits if_splits)
  have 3: "getAnnualIncome_b64 (st\<lparr>subscriptions := subs, annualCosts := costs\<rparr>)
      = getAnnualIncome_b64 st"
    by (simp add: getAnnualIncome_b64_def)
  have 4: "calculateLocally_b64 (st\<lparr>subscriptions := subs, annualCosts := costs\<rparr>)
      = calculateLocally_b64 st"
    by (auto simp: calculateLocally_b64_def 3 Let_def split: option.splits)
  have 5: "getAnnualIncome_b64 st = None"
    if "\<not> toggle st \<and> (\<not> jgt (hourlyRateInput st) (Fin 0) \<or> \<not> jgt (hoursPerWeekInput st) (Fin 0))"
    using that by (auto simp: getAnnualIncome_b64_def)
  have 6: "getAnnualIncome_b64 st = None"
    if "toggle st \<and> \<not> jgt (annualSalaryInput st) (Fin 0)"
    using that by (auto simp: getAnnualIncome_b64_def)
  have 7: "\<not> jgt (hourlyRateInput st) (Fin 0)" if "hourlyRateInput st = Fin 0"
    using that by (simp add: jgt_def)
  from 1 2 4 5 6 7 show ?thesis by blast
qed

theorem calculateLocally_absent_iff_witness:
  "calculateLocally_b64
      (blank_state\<lparr>hourlyRateInput := Fin 0, hoursPerWeekInput := Fin 35, taxToggle := True,
         subscriptions := [\<lparr>id' = ''1'', name = ''Gym'', amount = Fin 30\<rparr>],
         annualCosts := [\<lparr>id' = ''2'', name = ''Insurance'', amount = Fin 600\<rparr>]\<rparr>) = None
   \<and> getAnnualIncome_b64
      (blank_state\<lparr>hourlyRateInput := Fin 0, hoursPerWeekInput := Fin 35, taxToggle := True,
         subscriptions := [\<lparr>id' = ''1'', name = ''Gym'', amount = Fin 30\<rparr>],
         annualCosts := [\<lparr>id' = ''2'', name = ''Insurance'', amount = Fin 600\<rparr>]\<rparr>) = None
   \<and> calculateLocally_b64
      (blank_state\<lparr>hourlyRateInput := Fin 20, hoursPerWeekInput := Fin 35\<rparr>)
     = Some \<lparr>grossAnnual = Fin 36400, grossMonthly = Fin (36400 / 12), monthlyTax = Fin 0,
             netMonthly = Fin (36400 / 12), taxEnabled = False\<rparr>
   \<and> getAnnualIncome_b64
      (blank_state\<lparr>hourlyRateInput := Fin 20, hoursPerWeekInput := Fin 35\<rparr>)
     = Some (Fin 36400)"
  using calculateLocally_absent_iff
    [of "blank_state\<lparr>hourlyRateInput := Fin 0, hoursPerWeekInput := Fin 35, taxToggle := True,
         subscriptions := [\<lparr>id' = ''1'', name = ''Gym'', amount = Fin 30\<rparr>],
         annualCosts := [\<lparr>id' = ''2'', name = ''Insurance'', amount = Fin 600\<rparr>]\<rparr>"
        "\<lparr>grossAnnual = Fin 36400, grossMonthly = Fin (36400 / 12), monthlyTax = Fin 0,
             netMonthly = Fin (36400 / 12), taxEnabled = False\<rparr>" "[]" "[]"]
    calculateLocally_absent_iff
    [of "blank_state\<lparr>hourlyRateInput := Fin 20, hoursPerWeekInput := Fin 35\<rparr>"
        "\<lparr>grossAnnual = Fin 36400, grossMonthly = Fin (36400 / 12), monthlyTax = Fin 0,
             netMonthly = Fin (36400 / 12), taxEnabled = False\<rparr>" "[]" "[]"]
  by (simp add: blank_state_def jgt_def getAnnualIncome_b64_def calculateLocally_b64_def
      binary64_range_def truthy_def jsub_def Let_def)

text \<open>
  Claim C4 as stated fails. With an hourly rate of \<open>1e-200\<close> and \<open>1e-200\<close> hours a
  week both tests of \<open>getAnnualIncome\<close> pass and it returns the product, which has
  underflowed to \<open>0\<close>: the resolver's answer is not \<open>null\<close>, and \<open>calculateLocally\<close>
  returns \<open>null\<close> all the same.
\<close>

theorem calculateLocally_underflow_counterexample:
  "jgt (Fin (1 / 10 ^ 200)) (Fin 0)
   \<and> getAnnualIncome_b64
        (blank_state\<lparr>hourlyRateInput := Fin (1 / 10 ^ 200),
                      hoursPerWeekInput := Fin (1 / 10 ^ 200)\<rparr>) = Some (Fin 0)
   \<and> getAnnualIncome_b64
        (blank_state\<lparr>hourlyRateInput := Fin (1 / 10 ^ 200),
                      hoursPerWeekInput := Fin (1 / 10 ^ 200)\<rparr>) \<noteq> None
   \<and> calculateLocally_b64
        (blank_state\<lparr>hourlyRateInput := Fin (1 / 10 ^ 200),
                      hoursPerWeekInput := Fin (1 / 10 ^ 200)\<rparr>) = None"
proof -
  have g: "getAnnualIncome_b64
        (blank_state\<lparr>hourlyRateInput := Fin (1 / 10 ^ 200),
                      hoursPerWeekInput := Fin (1 / 10 ^ 200)\<rparr>) = Some (Fin 0)"
    by (simp add: getAnnualIncome_b64_def blank_state_def jgt_def binary64_range_def)
  show ?thesis
    unfolding calculateLocally_b64_def g by (simp add: truthy_def jgt_def)
qed



section \<open>The projection\<close>

lemma buildProjectionSeries_loop_eq:
  "buildProjectionSeries_loop s d months i series =
     series @ map (\<lambda>k. \<lparr>month = k, balance = jadd s (jmul d (Fin (of_int k)))\<rparr>) [i..months]"
proof (induction s d months i series rule: buildProjectionSeries_loop.induct)
  case (1 s d months i series)
  show ?case
  proof (cases "i \<le> months")
    case True
    then show ?thesis
      using "1.IH" [OF True]
      by (subst buildProjectionSeries_loop.simps) (simp add: upto_rec1 [of i months])
  next
    case False
    then show ?thesis
      by (subst buildProjectionSeries_loop.simps) simp
  qed
qed

lemma buildProjectionSeries_eq:
  "buildProjectionSeries s d months =
     map (\<lambda>k. \<lparr>month = k, balance = jadd s (jmul d (Fin (of_int k)))\<rparr>) [0..months]"
  by (simp add: buildProjectionSeries_def buildProjectionSeries_loop_eq)

text \<open>
  Claim C6. For a horizon \<open>months \<ge> 0\<close>, \<open>buildProjectionSeries\<close> returns
  \<open>months + 1\<close> points, and the point at index \<open>i\<close> has month \<open>i\<close> and balance
  start plus delta times \<open>i\<close>, for \<open>i\<close> from 0 to \<open>months\<close> in order. On finite
  numbers: start 1000 and delta 200 over 3 months give 1000, 1200, 1400, 1600, and a
  horizon of 0 gives the single point of month 0 with the start balance.
\<close>

theorem buildProjectionSeries_linear:
  assumes "0 \<le> months"
  shows "length (buildProjectionSeries s d months) = nat (months + 1)
       \<and> (\<forall>i. 0 \<le> i \<and> i \<le> months \<longrightarrow>
             buildProjectionSeries s d months ! nat i =
               \<lparr>month = i, balance = jadd s (jmul d (Fin (of_int i)))\<rparr>)
       \<and> buildProjectionSeries (Fin x) (Fin y) months =
             map (\<lambda>i. \<lparr>month = i, balance = Fin (x + y * of_int i)\<rparr>) [0..months]
       \<and> buildProjectionSeries (Fin 1000) (Fin 200) 3 =
             [\<lparr>month = 0, balance = Fin 1000\<rparr>, \<lparr>month = 1, balance = Fin 1200\<rparr>,
              \<lparr>month = 2, balance = Fin 1400\<rparr>, \<lparr>month = 3, balance = Fin 1600\<rparr>]
       \<and> buildProjectionSeries (Fin x) (Fin y) 0 = [\<lparr>month = 0, balance = Fin x\<rparr>]"
proof -
  have len: "length (buildProjectionSeries s d months) = nat (months + 1)"
    using assms by (simp add: buildProjectionSeries_eq)
  have nth: "buildProjectionSeries s d months ! nat i =
               \<lparr>month = i, balance = jadd s (jmul d (Fin (of_int i)))\<rparr>"
    if "0 \<le> i" "i \<le> months" for i
    using that by (simp add: buildProjectionSeries_eq)
  have fin: "buildProjectionSeries (Fin x) (Fin y) months =
             map (\<lambda>i. \<lparr>month = i, balance = Fin (x + y * of_int i)\<rparr>) [0..months]"
    by (simp add: buildProjectionSeries_eq)
  have ex: "buildProjectionSeries (Fin 1000) (Fin 200) 3 =
             [\<lparr>month = 0, balance = Fin 1000\<rparr>, \<lparr>month = 1, balance = Fin 1200\<rparr>,
              \<lparr>month = 2, balance = Fin 1400\<rparr>, \<lparr>month = 3, balance = Fin 1600\<rparr>]"
    by (simp add: buildProjectionSeries_eq upto.simps)
  have zero: "buildProjectionSeries (Fin x) (Fin y) 0 = [\<lparr>month = 0, balance = Fin x\<rparr>]"
    by (simp add: buildProjectionSeries_eq upto.simps)
  from len nth fin ex zero show ?thesis by blast
qed

theorem buildProjectionSeries_linear_witness:
  "(0::int) \<le> 2
   \<and> length (buildProjectionSeries (Fin 50) (Fin (- 20)) 2) = 3
   \<and> buildProjectionSeries (Fin 50) (Fin (- 20)) 2 ! 2 = \<lparr>month = 2, balance = Fin 10\<rparr>
   \<and> buildProjectionSeries (Fin 50) (Fin (- 20)) 2 =
       [\<lparr>month = 0, balance = Fin 50\<rparr>, \<lparr>month = 1, balance = Fin 30\<rparr>,
        \<lparr>month = 2, balance = Fin 10\<rparr>]"
proof -
  have h: "(0::int) \<le> 2" by simp
  note t = buildProjectionSeries_linear [OF h, of "Fin 50" "Fin (- 20)" 50 "- 20"]
  from t have "buildProjectionSeries (Fin 50) (Fin (- 20)) 2 ! nat 2
      = \<lparr>month = 2, balance = jadd (Fin 50) (jmul (Fin (- 20)) (Fin (of_int 2)))\<rparr>"
    by simp
  moreover from t have "buildProjectionSeries (Fin 50) (Fin (- 20)) 2 =
      map (\<lambda>i. \<lparr>month = i, balance = Fin (50 + (- 20) * of_int i)\<rparr>) [0..2]"
    by simp
  moreover from t have "length (buildProjectionSeries (Fin 50) (Fin (- 20)) 2) = nat (2 + 1)"
    by simp
  ultimately show ?thesis
    by (simp add: upto.simps)
qed

text \<open>
  Claim C10. \<open>buildProjectionSeries\<close> returns on every whole horizon: a negative
  horizon gives the empty series, and the length of the series is
  \<open>max 0 (months + 1)\<close> in every case.
\<close>

theorem buildProjectionSeries_negative_horizon:
  "(months < 0 \<longrightarrow> buildProjectionSeries s d months = [])
   \<and> length (buildProjectionSeries s d months) = nat (max 0 (months + 1))"
  by (auto simp: buildProjectionSeries_eq)

theorem buildProjectionSeries_negative_horizon_witness:
  "(- 2 :: int) < 0 \<and> buildProjectionSeries (Fin 1000) (Fin 200) (- 2) = []
   \<and> length (buildProjectionSeries (Fin 1000) (Fin 200) (- 2)) = 0"
  using buildProjectionSeries_negative_horizon [of "- 2" "Fin 1000" "Fin 200"]
  by simp

section \<open>The ledgers\<close>

lemma findIndex_from_none:
  "\<forall>x \<in> set xs. \<not> P x \<Longrightarrow> findIndex_from P xs k = - 1"
  by (induction xs arbitrary: k) auto

lemma jgt_zero_cases: "jgt a (Fin 0) = (positive_finite a \<or> a = PInf)"
  by (cases a) (simp_all add: jgt_def)

lemma add_guard: "(\<not> truthy a \<or> jle a (Fin 0)) = (\<not> jgt a (Fin 0))"
  by (cases a) (auto simp: truthy_def jle_def jgt_def)

lemma findIndex_from_first:
  "\<exists>x \<in> set xs. P x \<Longrightarrow>
     findIndex_from P xs k = int (k + length (takeWhile (\<lambda>x. \<not> P x) xs))"
proof (induction xs arbitrary: k)
  case Nil
  then show ?case by simp
next
  case (Cons a xs)
  show ?case
  proof (cases "P a")
    case True
    then show ?thesis by simp
  next
    case False
    with Cons.prems have "\<exists>x \<in> set xs. P x" by auto
    from Cons.IH [OF this, of "Suc k"] False show ?thesis by simp
  qed
qed

lemma length_takeWhile_first:
  "\<exists>x \<in> set xs. P x \<Longrightarrow> length (takeWhile (\<lambda>x. \<not> P x) xs) < length xs"
  by (induction xs) auto

lemma splice_one:
  "n < length xs \<Longrightarrow> splice xs (int n) 1 = take n xs @ drop (Suc n) xs"
  by (simp add: splice_def Let_def min_def max_def nat_add_distrib)

lemma remove_at_first:
  assumes "\<exists>x \<in> set xs. P x"
  shows "findIndex P xs \<noteq> - 1"
    and "splice xs (findIndex P xs) 1 =
           takeWhile (\<lambda>x. \<not> P x) xs @ tl (dropWhile (\<lambda>x. \<not> P x) xs)"
proof -
  let ?n = "length (takeWhile (\<lambda>x. \<not> P x) xs)"
  have idx: "findIndex P xs = int ?n"
    using findIndex_from_first [OF assms, of 0] by (simp add: findIndex_def)
  then show "findIndex P xs \<noteq> - 1" by simp
  have lt: "?n < length xs"
    by (rule length_takeWhile_first [OF assms])
  have sp: "splice xs (int ?n) 1 = take ?n xs @ drop (Suc ?n) xs"
    by (rule splice_one [OF lt])
  have tk: "take ?n xs = takeWhile (\<lambda>x. \<not> P x) xs"
    by (rule takeWhile_eq_take [symmetric])
  have "drop (Suc ?n) xs = tl (drop ?n xs)"
    by (simp add: drop_Suc tl_drop)
  also have "\<dots> = tl (dropWhile (\<lambda>x. \<not> P x) xs)"
    by (simp only: dropWhile_eq_drop [symmetric])
  finally have dr: "drop (Suc ?n) xs = tl (dropWhile (\<lambda>x. \<not> P x) xs)" .
  show "splice xs (findIndex P xs) 1 =
           takeWhile (\<lambda>x. \<not> P x) xs @ tl (dropWhile (\<lambda>x. \<not> P x) xs)"
    unfolding idx sp tk dr ..
qed

lemma first_match_split:
  assumes "\<exists>x \<in> set xs. P x"
  shows "xs = takeWhile (\<lambda>x. \<not> P x) xs @ hd (dropWhile (\<lambda>x. \<not> P x) xs)
               # tl (dropWhile (\<lambda>x. \<not> P x) xs)"
    and "P (hd (dropWhile (\<lambda>x. \<not> P x) xs))"
proof -
  from assms have ne: "dropWhile (\<lambda>x. \<not> P x) xs \<noteq> []"
    by (auto simp: dropWhile_eq_Nil_conv)
  then show "xs = takeWhile (\<lambda>x. \<not> P x) xs @ hd (dropWhile (\<lambda>x. \<not> P x) xs)
               # tl (dropWhile (\<lambda>x. \<not> P x) xs)"
    by simp
  from ne show "P (hd (dropWhile (\<lambda>x. \<not> P x) xs))"
    using hd_dropWhile [of "\<lambda>x. \<not> P x" xs] by simp
qed

lemma length_remove_first:
  assumes "\<exists>x \<in> set xs. P x"
  shows "length (takeWhile (\<lambda>x. \<not> P x) xs @ tl (dropWhile (\<lambda>x. \<not> P x) xs)) + 1 = length xs"
proof -
  have "length xs = length (takeWhile (\<lambda>x. \<not> P x) xs @ hd (dropWhile (\<lambda>x. \<not> P x) xs)
               # tl (dropWhile (\<lambda>x. \<not> P x) xs))"
    using first_match_split(1) [OF assms] by simp
  then show ?thesis by simp
qed

text \<open>
  Claim C7, as the code has it. An add returns the state unchanged when the trimmed name
  is empty or the amount is not greater than 0 (\<open>NaN\<close>, zero, a negative number or
  \<open>-Infinity\<close>). Otherwise, for a positive finite amount and also for \<open>+Infinity\<close>,
  it appends exactly one entry at the end of its own ledger and leaves the other ledger
  as it was. A remove of an id that no entry of the ledger has returns the state
  unchanged.
\<close>

theorem ledger_mutations_guarded:
  "(trim (subNameInput st) = [] \<or> \<not> jgt (subAmountInput st) (Fin 0)
      \<longrightarrow> addSubscription now st = st)
   \<and> (trim (subNameInput st) \<noteq> [] \<and> jgt (subAmountInput st) (Fin 0)
      \<longrightarrow> subscriptions (addSubscription now st) =
            subscriptions st @ [\<lparr>id' = toString now, name = trim (subNameInput st),
                                  amount = subAmountInput st\<rparr>]
          \<and> annualCosts (addSubscription now st) = annualCosts st)
   \<and> (trim (annualCostNameInput st) = [] \<or> \<not> jgt (annualCostAmountInput st) (Fin 0)
      \<longrightarrow> addAnnualCost now st = st)
   \<and> (trim (annualCostNameInput st) \<noteq> [] \<and> jgt (annualCostAmountInput st) (Fin 0)
      \<longrightarrow> annualCosts (addAnnualCost now st) =
            annualCosts st @ [\<lparr>id' = toString now, name = trim (annualCostNameInput st),
                                amount = annualCostAmountInput st\<rparr>]
          \<and> subscriptions (addAnnualCost now st) = subscriptions st)
   \<and> (i \<notin> id' ` set (subscriptions st) \<longrightarrow> removeSubscription i st = st)
   \<and> (i \<notin> id' ` set (annualCosts st) \<longrightarrow> removeAnnualCost i st = st)
   \<and> jgt a (Fin 0) = (positive_finite a \<or> a = PInf)"
proof -
  have rs: "removeSubscription i st = st" if "i \<notin> id' ` set (subscriptions st)"
  proof -
    from that have "\<forall>e \<in> set (subscriptions st). \<not> id' e = i" by auto
    from findIndex_from_none [OF this, of 0] show ?thesis
      by (simp add: removeSubscription_def findIndex_def)
  qed
  have ra: "removeAnnualCost i st = st" if "i \<notin> id' ` set (annualCosts st)"
  proof -
    from that have "\<forall>e \<in> set (annualCosts st). \<not> id' e = i" by auto
    from findIndex_from_none [OF this, of 0] show ?thesis
      by (simp add: removeAnnualCost_def findIndex_def)
  qed
  have s1: "addSubscription now st = st"
    if "trim (subNameInput st) = [] \<or> \<not> jgt (subAmountInput st) (Fin 0)"
    using that add_guard [of "subAmountInput st"] by (auto simp: addSubscription_def Let_def)
  have s2: "subscriptions (addSubscription now st) =
            subscriptions st @ [\<lparr>id' = toString now, name = trim (subNameInput st),
                                  amount = subAmountInput st\<rparr>]
          \<and> annualCosts (addSubscription now st) = annualCosts st"
    if "trim (subNameInput st) \<noteq> [] \<and> jgt (subAmountInput st) (Fin 0)"
    using that add_guard [of "subAmountInput st"] by (auto simp: addSubscription_def Let_def)
  have a1: "addAnnualCost now st = st"
    if "trim (annualCostNameInput st) = [] \<or> \<not> jgt (annualCostAmountInput st) (Fin 0)"
    using that add_guard [of "annualCostAmountInput st"] by (auto simp: addAnnualCost_def Let_def)
  have a2: "annualCosts (addAnnualCost now st) =
            annualCosts st @ [\<lparr>id' = toString now, name = trim (annualCostNameInput st),
                                amount = annualCostAmountInput st\<rparr>]
          \<and> subscriptions (addAnnualCost now st) = subscriptions st"
    if "trim (annualCostNameInput st) \<noteq> [] \<and> jgt (annualCostAmountInput st) (Fin 0)"
    using that add_guard [of "annualCostAmountInput st"] by (auto simp: addAnnualCost_def Let_def)
  from rs ra s1 s2 a1 a2 jgt_zero_cases [of a] show ?thesis by blast
qed

theorem ledger_mutations_guarded_witness:
  "addSubscription 1700000000000 (blank_state\<lparr>subNameInput := ''  '', subAmountInput := Fin 5\<rparr>)
     = blank_state\<lparr>subNameInput := ''  '', subAmountInput := Fin 5\<rparr>
   \<and> addSubscription 1700000000000 (blank_state\<lparr>subNameInput := ''Gym'', subAmountInput := NaN\<rparr>)
     = blank_state\<lparr>subNameInput := ''Gym'', subAmountInput := NaN\<rparr>
   \<and> subscriptions (addSubscription 1700000000000
        (blank_state\<lparr>subNameInput := '' Gym '', subAmountInput := Fin 30\<rparr>))
     = [\<lparr>id' = ''1700000000000'', name = ''Gym'', amount = Fin 30\<rparr>]
   \<and> subscriptions (addSubscription 1700000000000
        (blank_state\<lparr>subNameInput := ''Gym'', subAmountInput := PInf\<rparr>))
     = [\<lparr>id' = ''1700000000000'', name = ''Gym'', amount = PInf\<rparr>]
   \<and> removeSubscription ''7''
        (blank_state\<lparr>subscriptions := [\<lparr>id' = ''5'', name = ''Gym'', amount = Fin 30\<rparr>]\<rparr>)
     = blank_state\<lparr>subscriptions := [\<lparr>id' = ''5'', name = ''Gym'', amount = Fin 30\<rparr>]\<rparr>"
  using
    ledger_mutations_guarded
      [of "blank_state\<lparr>subNameInput := ''  '', subAmountInput := Fin 5\<rparr>" 1700000000000 "''7''" NaN]
    ledger_mutations_guarded
      [of "blank_state\<lparr>subNameInput := ''Gym'', subAmountInput := NaN\<rparr>" 1700000000000 "''7''" NaN]
    ledger_mutations_guarded
      [of "blank_state\<lparr>subNameInput := '' Gym '', subAmountInput := Fin 30\<rparr>" 1700000000000 "''7''" NaN]
    ledger_mutations_guarded
      [of "blank_state\<lparr>subNameInput := ''Gym'', subAmountInput := PInf\<rparr>" 1700000000000 "''7''" NaN]
    ledger_mutations_guarded
      [of "blank_state\<lparr>subscriptions := [\<lparr>id' = ''5'', name = ''Gym'', amount = Fin 30\<rparr>]\<rparr>"
          1700000000000 "''7''" NaN]
  by (simp add: blank_state_def trim_def isWhiteSpace_def jgt_def toString_def
      nat_toString.simps digit_char_def)

text \<open>
  Claim C7 as stated fails: \<open>+Infinity\<close> is not a positive finite number, and
  \<open>addSubscription\<close> appends an entry with that amount.
\<close>

theorem addSubscription_infinite_amount_counterexample:
  "\<not> (\<forall>now st. trim (subNameInput st) = [] \<or> \<not> positive_finite (subAmountInput st)
         \<longrightarrow> subscriptions (addSubscription now st) = subscriptions st)"
proof
  assume a: "\<forall>now st. trim (subNameInput st) = [] \<or> \<not> positive_finite (subAmountInput st)
         \<longrightarrow> subscriptions (addSubscription now st) = subscriptions st"
  have "subscriptions (addSubscription 1700000000000
            (blank_state\<lparr>subNameInput := ''Gym'', subAmountInput := PInf\<rparr>))
        = subscriptions (blank_state\<lparr>subNameInput := ''Gym'', subAmountInput := PInf\<rparr>)"
    by (rule a [rule_format]) simp
  then show False
    by (simp add: addSubscription_def blank_state_def trim_def isWhiteSpace_def truthy_def
        jle_def Let_def)
qed

text \<open>
  Claim C8. Two subscriptions added while the clock shows the same millisecond get the
  same id, so the ids of the ledger are not pairwise distinct; removing by that id then
  deletes the first of the two entries.
\<close>

theorem addSubscription_same_clock_duplicate_ids:
  "(let st1 = addSubscription 1700000000000
                (blank_state\<lparr>subNameInput := ''Netflix'', subAmountInput := Fin 9.99\<rparr>);
        st2 = addSubscription 1700000000000
                (st1\<lparr>subNameInput := ''Spotify'', subAmountInput := Fin 15\<rparr>)
    in subscriptions st2 =
         [\<lparr>id' = ''1700000000000'', name = ''Netflix'', amount = Fin 9.99\<rparr>,
          \<lparr>id' = ''1700000000000'', name = ''Spotify'', amount = Fin 15\<rparr>]
       \<and> \<not> distinct (map id' (subscriptions st2))
       \<and> subscriptions (removeSubscription ''1700000000000'' st2) =
           [\<lparr>id' = ''1700000000000'', name = ''Spotify'', amount = Fin 15\<rparr>])"
  by (simp add: Let_def addSubscription_def blank_state_def trim_def isWhiteSpace_def
      truthy_def jle_def toString_def nat_toString.simps digit_char_def
      removeSubscription_def findIndex_def splice_def)

theorem addSubscription_same_clock_duplicate_ids_witness:
  "trim ''Netflix'' \<noteq> [] \<and> jgt (Fin 9.99) (Fin 0)
   \<and> trim ''Spotify'' \<noteq> [] \<and> jgt (Fin 15) (Fin 0)
   \<and> map id' (subscriptions
         (addSubscription 1700000000000
            ((addSubscription 1700000000000
                (blank_state\<lparr>subNameInput := ''Netflix'', subAmountInput := Fin 9.99\<rparr>))
             \<lparr>subNameInput := ''Spotify'', subAmountInput := Fin 15\<rparr>)))
       = [''1700000000000'', ''1700000000000'']"
  using addSubscription_same_clock_duplicate_ids
  by (simp add: Let_def trim_def isWhiteSpace_def jgt_def)

text \<open>
  Claim C9. A remove of an id that the ledger holds deletes the first entry with that id
  and nothing else: the entries before it and after it stay as they are, in their order,
  the ledger is one entry shorter, and the other ledger is unchanged.
\<close>

theorem remove_deletes_first_match:
  "(i \<in> id' ` set (subscriptions st) \<longrightarrow>
      removeSubscription i st =
        st\<lparr>subscriptions := takeWhile (\<lambda>e. id' e \<noteq> i) (subscriptions st)
                             @ tl (dropWhile (\<lambda>e. id' e \<noteq> i) (subscriptions st))\<rparr>
      \<and> subscriptions st =
          takeWhile (\<lambda>e. id' e \<noteq> i) (subscriptions st)
          @ hd (dropWhile (\<lambda>e. id' e \<noteq> i) (subscriptions st))
          # tl (dropWhile (\<lambda>e. id' e \<noteq> i) (subscriptions st))
      \<and> id' (hd (dropWhile (\<lambda>e. id' e \<noteq> i) (subscriptions st))) = i
      \<and> length (subscriptions (removeSubscription i st)) + 1 = length (subscriptions st)
      \<and> annualCosts (removeSubscription i st) = annualCosts st)
   \<and> (i \<in> id' ` set (annualCosts st) \<longrightarrow>
      removeAnnualCost i st =
        st\<lparr>annualCosts := takeWhile (\<lambda>e. id' e \<noteq> i) (annualCosts st)
                           @ tl (dropWhile (\<lambda>e. id' e \<noteq> i) (annualCosts st))\<rparr>
      \<and> annualCosts st =
          takeWhile (\<lambda>e. id' e \<noteq> i) (annualCosts st)
          @ hd (dropWhile (\<lambda>e. id' e \<noteq> i) (annualCosts st))
          # tl (dropWhile (\<lambda>e. id' e \<noteq> i) (annualCosts st))
      \<and> id' (hd (dropWhile (\<lambda>e. id' e \<noteq> i) (annualCosts st))) = i
      \<and> length (annualCosts (removeAnnualCost i st)) + 1 = length (annualCosts st)
      \<and> subscriptions (removeAnnualCost i st) = subscriptions st)"
proof -
  have sub: "removeSubscription i st =
        st\<lparr>subscriptions := takeWhile (\<lambda>e. id' e \<noteq> i) (subscriptions st)
                             @ tl (dropWhile (\<lambda>e. id' e \<noteq> i) (subscriptions st))\<rparr>"
    if "\<exists>e \<in> set (subscriptions st). id' e = i"
    using remove_at_first [OF that] by (simp add: removeSubscription_def Let_def)
  have ann: "removeAnnualCost i st =
        st\<lparr>annualCosts := takeWhile (\<lambda>e. id' e \<noteq> i) (annualCosts st)
                           @ tl (dropWhile (\<lambda>e. id' e \<noteq> i) (annualCosts st))\<rparr>"
    if "\<exists>e \<in> set (annualCosts st). id' e = i"
    using remove_at_first [OF that] by (simp add: removeAnnualCost_def Let_def)
  show ?thesis
  proof (intro conjI impI)
    assume "i \<in> id' ` set (subscriptions st)"
    then have ex: "\<exists>e \<in> set (subscriptions st). id' e = i" by auto
    show "removeSubscription i st =
        st\<lparr>subscriptions := takeWhile (\<lambda>e. id' e \<noteq> i) (subscriptions st)
                             @ tl (dropWhile (\<lambda>e. id' e \<noteq> i) (subscriptions st))\<rparr>"
      by (rule sub [OF ex])
    show "subscriptions st =
          takeWhile (\<lambda>e. id' e \<noteq> i) (subscriptions st)
          @ hd (dropWhile (\<lambda>e. id' e \<noteq> i) (subscriptions st))
          # tl (dropWhile (\<lambda>e. id' e \<noteq> i) (subscriptions st))"
      by (rule first_match_split(1) [OF ex])
    show "id' (hd (dropWhile (\<lambda>e. id' e \<noteq> i) (subscriptions st))) = i"
      by (rule first_match_split(2) [OF ex])
    show "length (subscriptions (removeSubscription i st)) + 1 = length (subscriptions st)"
      using length_remove_first [OF ex] by (simp add: sub [OF ex])
    show "annualCosts (removeSubscription i st) = annualCosts st"
      by (simp add: sub [OF ex])
  next
    assume "i \<in> id' ` set (annualCosts st)"
    then have ex: "\<exists>e \<in> set (annualCosts st). id' e = i" by auto
    show "removeAnnualCost i st =
        st\<lparr>annualCosts := takeWhile (\<lambda>e. id' e \<noteq> i) (annualCosts st)
                           @ tl (dropWhile (\<lambda>e. id' e \<noteq> i) (annualCosts st))\<rparr>"
      by (rule ann [OF ex])
    show "annualCosts st =
          takeWhile (\<lambda>e. id' e \<noteq> i) (annualCosts st)
          @ hd (dropWhile (\<lambda>e. id' e \<noteq> i) (annualCosts st))
          # tl (dropWhile (\<lambda>e. id' e \<noteq> i) (annualCosts st))"
      by (rule first_match_split(1) [OF ex])
    show "id' (hd (dropWhile (\<lambda>e. id' e \<noteq> i) (annualCosts st))) = i"
      by (rule first_match_split(2) [OF ex])
    show "length (annualCosts (removeAnnualCost i st)) + 1 = length (annualCosts st)"
      using length_remove_first [OF ex] by (simp add: ann [OF ex])
    show "subscriptions (removeAnnualCost i st) = subscriptions st"
      by (simp add: ann [OF ex])
  qed
qed

theorem remove_deletes_first_match_witness:
  "''20'' \<in> id' ` set [\<lparr>id' = ''10'', name = ''A'', amount = Fin 1\<rparr>,
                         \<lparr>id' = ''20'', name = ''B'', amount = Fin 2\<rparr>,
                         \<lparr>id' = ''20'', name = ''C'', amount = Fin 3\<rparr>]
   \<and> removeSubscription ''20''
       (blank_state\<lparr>subscriptions := [\<lparr>id' = ''10'', name = ''A'', amount = Fin 1\<rparr>,
                                       \<lparr>id' = ''20'', name = ''B'', amount = Fin 2\<rparr>,
                                       \<lparr>id' = ''20'', name = ''C'', amount = Fin 3\<rparr>],
                     annualCosts := [\<lparr>id' = ''20'', name = ''D'', amount = Fin 4\<rparr>]\<rparr>)
     = blank_state\<lparr>subscriptions := [\<lparr>id' = ''10'', name = ''A'', amount = Fin 1\<rparr>,
                                     \<lparr>id' = ''20'', name = ''C'', amount = Fin 3\<rparr>],
                   annualCosts := [\<lparr>id' = ''20'', name = ''D'', amount = Fin 4\<rparr>]\<rparr>
   \<and> removeAnnualCost ''20''
       (blank_state\<lparr>subscriptions := [\<lparr>id' = ''10'', name = ''A'', amount = Fin 1\<rparr>,
                                       \<lparr>id' = ''20'', name = ''B'', amount = Fin 2\<rparr>,
                                       \<lparr>id' = ''20'', name = ''C'', amount = Fin 3\<rparr>],
                     annualCosts := [\<lparr>id' = ''20'', name = ''D'', amount = Fin 4\<rparr>]\<rparr>)
     = blank_state\<lparr>subscriptions := [\<lparr>id' = ''10'', name = ''A'', amount = Fin 1\<rparr>,
                                       \<lparr>id' = ''20'', name = ''B'', amount = Fin 2\<rparr>,
                                       \<lparr>id' = ''20'', name = ''C'', amount = Fin 3\<rparr>],
                   annualCosts := []\<rparr>"
  using remove_deletes_first_match
    [of "''20''"
        "blank_state\<lparr>subscriptions := [\<lparr>id' = ''10'', name = ''A'', amount = Fin 1\<rparr>,
                                       \<lparr>id' = ''20'', name = ''B'', amount = Fin 2\<rparr>,
                                       \<lparr>id' = ''20'', name = ''C'', amount = Fin 3\<rparr>],
                     annualCosts := [\<lparr>id' = ''20'', name = ''D'', amount = Fin 4\<rparr>]\<rparr>"]
  by (simp add: blank_state_def)

end
